theory Spec2Isabelle
  imports Main "HOL-Library.Word"
begin

unbundle bit_operations_syntax

section \<open>Security::PeerOptions (src/security/PeerOptions.cc)\<close>

text \<open>
  A shallow embedding of the TLS peer configuration entity of Squid. Strings (\<open>SBuf\<close>,
  \<open>const char *\<close>) are character lists without NUL. The C type \<open>long\<close> that carries the
  option and flag bitmasks is a 64-bit word (LP64). \<open>fatalf\<close> is the value \<open>Inl (Fatal msg)\<close>;
  every \<open>debugs\<close> call appends its message to a log that the functions return.
\<close>

type_synonym long = "64 word"
type_synonym SBuf = string
type_synonym debug_log = "string list"

datatype error = Fatal string

subsection \<open>Build configuration\<close>

text \<open>
  The preprocessor symbols the file tests. \<open>#if SSL_OP_X\<close> holds exactly when the TLS
  library's headers define \<open>SSL_OP_X\<close> with a non-zero value, so a build gives every macro
  a value and 0 stands for "not defined". The \<open>SSL_FLAG_*\<close> masks belong to a header of the
  repository that is not among the sources; they are parameters of the build as well.
\<close>

datatype tls_library = OpenSSL | GnuTLS | NoTlsLibrary

datatype ssl_op_macro =
    SSL_OP_NETSCAPE_REUSE_CIPHER_CHANGE_BUG
  | SSL_OP_SSLREF2_REUSE_CERT_TYPE_BUG
  | SSL_OP_MICROSOFT_BIG_SSLV3_BUFFER
  | SSL_OP_SSLEAY_080_CLIENT_DH_BUG
  | SSL_OP_TLS_D5_BUG
  | SSL_OP_TLS_BLOCK_PADDING_BUG
  | SSL_OP_TLS_ROLLBACK_BUG
  | SSL_OP_ALL
  | SSL_OP_SINGLE_DH_USE
  | SSL_OP_EPHEMERAL_RSA
  | SSL_OP_PKCS1_CHECK_1
  | SSL_OP_PKCS1_CHECK_2
  | SSL_OP_NETSCAPE_CA_DN_BUG
  | SSL_OP_NON_EXPORT_FIRST
  | SSL_OP_CIPHER_SERVER_PREFERENCE
  | SSL_OP_NETSCAPE_DEMO_CIPHER_CHANGE_BUG
  | SSL_OP_NO_SSLv3
  | SSL_OP_NO_TLSv1
  | SSL_OP_NO_TLSv1_1
  | SSL_OP_NO_TLSv1_2
  | SSL_OP_NO_COMPRESSION
  | SSL_OP_NO_TICKET
  | SSL_OP_SINGLE_ECDH_USE
  | SSL_OP_NO_SSLv2

record build_config =
  tls_lib :: tls_library
  SSL_OP :: "ssl_op_macro \<Rightarrow> long"
  SSL_FLAG_NO_DEFAULT_CA :: long
  SSL_FLAG_DELAYED_AUTH :: long
  SSL_FLAG_DONT_VERIFY_PEER :: long
  SSL_FLAG_DONT_VERIFY_DOMAIN :: long
  SSL_FLAG_NO_SESSION_REUSE :: long
  SSL_FLAG_VERIFY_CRL :: long
  SSL_FLAG_VERIFY_CRL_ALL :: long
  X509_V_FLAG_CRL_CHECK :: long

subsection \<open>The value sub-tokenizer\<close>

text \<open>
  Modelled from the spec: \<open>Parser::Tokenizer\<close> and \<open>CharacterSet\<close> (parser/Tokenizer.h and
  base/CharacterSet.h are not among the sources). The spec lists the collaborator as
  "a value sub-tokenizer (literal-skip, radix-integer parse, character-class prefix match,
  delimiter-set skip)". A tokenizer is the text it has not consumed yet; every operation
  returns its result together with the tokenizer it leaves behind. The literal skips
  answer whether they skipped, as the callers in \<open>parseOptions\<close> and
  \<open>updateTlsVersionLimits\<close> use them (\<open>tok.skip('-') || tok.skip('!')\<close>).
\<close>

type_synonym Tokenizer = SBuf
type_synonym CharacterSet = "char \<Rightarrow> bool"

definition atEnd :: "Tokenizer \<Rightarrow> bool" where
  "atEnd tok = (tok = [])"

definition remaining :: "Tokenizer \<Rightarrow> SBuf" where
  "remaining tok = tok"

definition skip_char :: "char \<Rightarrow> Tokenizer \<Rightarrow> bool \<times> Tokenizer" where
  "skip_char c tok =
     (case tok of
        [] \<Rightarrow> (False, tok)
      | x # rest \<Rightarrow> if x = c then (True, rest) else (False, tok))"

definition skip :: "SBuf \<Rightarrow> Tokenizer \<Rightarrow> bool \<times> Tokenizer" where
  "skip tokenToSkip tok =
     (if take (length tokenToSkip) tok = tokenToSkip
      then (True, drop (length tokenToSkip) tok)
      else (False, tok))"

definition skipOne :: "CharacterSet \<Rightarrow> Tokenizer \<Rightarrow> bool \<times> Tokenizer" where
  "skipOne discardables tok =
     (case tok of
        [] \<Rightarrow> (False, tok)
      | x # rest \<Rightarrow> if discardables x then (True, rest) else (False, tok))"

text \<open>\<open>skipAll\<close> answers how many characters it skipped.\<close>

definition skipAll :: "CharacterSet \<Rightarrow> Tokenizer \<Rightarrow> nat \<times> Tokenizer" where
  "skipAll discardables tok =
     (length (takeWhile discardables tok), dropWhile discardables tok)"

text \<open>\<open>prefix\<close> fails when the text does not start with a character of the set.\<close>

definition prefix :: "CharacterSet \<Rightarrow> Tokenizer \<Rightarrow> (SBuf \<times> Tokenizer) option" where
  "prefix tokenChars tok =
     (if takeWhile tokenChars tok = [] then None
      else Some (takeWhile tokenChars tok, dropWhile tokenChars tok))"

definition ALPHA :: CharacterSet where
  "ALPHA c = ((65 \<le> (of_char c :: nat) \<and> (of_char c :: nat) \<le> 90)
            \<or> (97 \<le> (of_char c :: nat) \<and> (of_char c :: nat) \<le> 122))"

definition DIGIT :: CharacterSet where
  "DIGIT c = (48 \<le> (of_char c :: nat) \<and> (of_char c :: nat) \<le> 57)"

text \<open>
  The value of a character as a digit: \<open>0..9\<close>, then the letters of either case from 10
  on; a value is a digit of the base when it is below the base.
\<close>

definition digit_value :: "char \<Rightarrow> nat option" where
  "digit_value c =
     (if DIGIT c then Some ((of_char c :: nat) - 48)
      else if 65 \<le> (of_char c :: nat) \<and> (of_char c :: nat) \<le> 90 then Some ((of_char c :: nat) - 55)
      else if 97 \<le> (of_char c :: nat) \<and> (of_char c :: nat) \<le> 122 then Some ((of_char c :: nat) - 87)
      else None)"

fun digits_of :: "nat \<Rightarrow> string \<Rightarrow> nat list" where
  "digits_of base [] = []"
| "digits_of base (c # cs) =
     (case digit_value c of
        None \<Rightarrow> []
      | Some d \<Rightarrow> if d < base then d # digits_of base cs else [])"

definition has_0x :: "string \<Rightarrow> bool" where
  "has_0x s =
     (case s of
        a # b # rest \<Rightarrow> a = CHR ''0'' \<and> (b = CHR ''x'' \<or> b = CHR ''X'')
      | _ \<Rightarrow> False)"

text \<open>
  \<open>int64(result, base, allowSign = false, limit)\<close>: an unsigned integer in the given base
  read from at most \<open>limit\<close> characters (\<open>None\<close> is no limit), after an optional \<open>0x\<close> when
  the base is 16. It fails, consuming nothing, when no digit is found or the value does
  not fit \<open>int64_t\<close>. Both calls of the file pass \<open>allowSign = false\<close>.
\<close>

definition int64 :: "nat \<Rightarrow> nat option \<Rightarrow> Tokenizer \<Rightarrow> (int \<times> Tokenizer) option" where
  "int64 base limit tok =
     (let range = (case limit of None \<Rightarrow> tok | Some n \<Rightarrow> take n tok);
          skipped = (if base = 16 \<and> has_0x range then 2 else 0);
          ds = digits_of base (drop skipped range);
          v = foldl (\<lambda>acc d. acc * int base + int d) (0 :: int) ds
      in if ds = [] \<or> v > 9223372036854775807 then None
         else Some (v, drop (skipped + length ds) tok))"

subsection \<open>The configuration entity\<close>

datatype X509_CRL = X509_CRL nat

record KeyData =
  certFile :: SBuf
  privateKeyFile :: SBuf

record flags_ =
  tlsDefaultCa :: bool
  tlsNpn :: bool

record PeerOptions =
  sslOptions :: SBuf
  caDir :: SBuf
  crlFile :: SBuf
  sslCipher :: SBuf
  sslFlags :: SBuf
  sslDomain :: SBuf
  tlsMinVersion :: SBuf
  parsedOptions :: long
  parsedFlags :: long
  certs :: "KeyData list"
  caFiles :: "SBuf list"
  parsedCrl :: "X509_CRL list"
  sslVersion :: int
  flags :: flags_
  encryptTransport :: bool

text \<open>
  Modelled from the spec: the default-constructed entity and \<open>clear()\<close> (security/PeerOptions.h
  is not among the sources). The spec gives \<open>flags: {tlsDefaultCa: bool default true,
  tlsNpn: bool default true}\<close> and says that \<open>disable\<close> "resets the entire entity to defaults
  and disables TLS".
\<close>

definition PeerOptions_default :: PeerOptions where
  "PeerOptions_default =
     \<lparr> sslOptions = [], caDir = [], crlFile = [], sslCipher = [], sslFlags = [],
       sslDomain = [], tlsMinVersion = [], parsedOptions = 0, parsedFlags = 0,
       certs = [], caFiles = [], parsedCrl = [], sslVersion = 0,
       flags = \<lparr> tlsDefaultCa = True, tlsNpn = True \<rparr>, encryptTransport = False \<rparr>"

definition clear :: "PeerOptions \<Rightarrow> PeerOptions" where
  "clear p = PeerOptions_default"

subsection \<open>parseOptions\<close>

text \<open>
  The static table \<open>ssl_options\<close>. \<open>ssl_option_entries\<close> is every entry the source
  writes, each under the \<open>#if\<close> of its macro; an entry is compiled in when its macro is
  defined. The entry with the empty name closes the named part and the NULL entry ends
  the list.
\<close>

definition ssl_option_entries :: "build_config \<Rightarrow> (string \<times> long) list" where
  "ssl_option_entries B =
       [ (''NETSCAPE_REUSE_CIPHER_CHANGE_BUG'', SSL_OP B SSL_OP_NETSCAPE_REUSE_CIPHER_CHANGE_BUG),
         (''SSLREF2_REUSE_CERT_TYPE_BUG'', SSL_OP B SSL_OP_SSLREF2_REUSE_CERT_TYPE_BUG),
         (''MICROSOFT_BIG_SSLV3_BUFFER'', SSL_OP B SSL_OP_MICROSOFT_BIG_SSLV3_BUFFER),
         (''SSLEAY_080_CLIENT_DH_BUG'', SSL_OP B SSL_OP_SSLEAY_080_CLIENT_DH_BUG),
         (''TLS_D5_BUG'', SSL_OP B SSL_OP_TLS_D5_BUG),
         (''TLS_BLOCK_PADDING_BUG'', SSL_OP B SSL_OP_TLS_BLOCK_PADDING_BUG),
         (''TLS_ROLLBACK_BUG'', SSL_OP B SSL_OP_TLS_ROLLBACK_BUG),
         (''ALL'', SSL_OP B SSL_OP_ALL),
         (''SINGLE_DH_USE'', SSL_OP B SSL_OP_SINGLE_DH_USE),
         (''EPHEMERAL_RSA'', SSL_OP B SSL_OP_EPHEMERAL_RSA),
         (''PKCS1_CHECK_1'', SSL_OP B SSL_OP_PKCS1_CHECK_1),
         (''PKCS1_CHECK_2'', SSL_OP B SSL_OP_PKCS1_CHECK_2),
         (''NETSCAPE_CA_DN_BUG'', SSL_OP B SSL_OP_NETSCAPE_CA_DN_BUG),
         (''NON_EXPORT_FIRST'', SSL_OP B SSL_OP_NON_EXPORT_FIRST),
         (''CIPHER_SERVER_PREFERENCE'', SSL_OP B SSL_OP_CIPHER_SERVER_PREFERENCE),
         (''NETSCAPE_DEMO_CIPHER_CHANGE_BUG'', SSL_OP B SSL_OP_NETSCAPE_DEMO_CIPHER_CHANGE_BUG),
         (''NO_SSLv3'', SSL_OP B SSL_OP_NO_SSLv3),
         (''NO_TLSv1'', SSL_OP B SSL_OP_NO_TLSv1),
         (''NO_TLSv1_1'', SSL_OP B SSL_OP_NO_TLSv1_1),
         (''NO_TLSv1_2'', SSL_OP B SSL_OP_NO_TLSv1_2),
         (''No_Compression'', SSL_OP B SSL_OP_NO_COMPRESSION),
         (''NO_TICKET'', SSL_OP B SSL_OP_NO_TICKET),
         (''SINGLE_ECDH_USE'', SSL_OP B SSL_OP_SINGLE_ECDH_USE) ]"

definition ssl_options :: "build_config \<Rightarrow> (string \<times> long) list" where
  "ssl_options B = filter (\<lambda>e. snd e \<noteq> 0) (ssl_option_entries B) @ [ ('''', 0) ]"

text \<open>
  The search \<open>for (opttmp = ssl_options; opttmp->name; ++opttmp)\<close>: the value of the first
  entry whose name equals the option, and the initial \<open>value = 0\<close> when there is none.
\<close>

fun find_option :: "(string \<times> long) list \<Rightarrow> SBuf \<Rightarrow> long" where
  "find_option [] option = 0"
| "find_option (opttmp # later) option =
     (if option = fst opttmp then snd opttmp else find_option later option)"

definition optChars :: CharacterSet where
  "optChars c = (c = CHR ''_'' \<or> ALPHA c \<or> DIGIT c)"

definition delims :: CharacterSet where
  "delims c = (c = CHR '':'' \<or> c = CHR '','')"

text \<open>
  One term of the list, up to the delimiters: the operator, then a hexadecimal number or
  a name of the table. It returns the tokenizer, the accumulator and the log.
\<close>

definition parseOptions_term ::
  "build_config \<Rightarrow> Tokenizer \<Rightarrow> long \<Rightarrow> debug_log \<Rightarrow> Tokenizer \<times> long \<times> debug_log" where
  "parseOptions_term B tok op lg =
     (let (minus, tok1) = skip_char CHR ''-'' tok;
          (bang, tok2) = (if minus then (False, tok1) else skip_char CHR ''!'' tok1);
          MODE_REMOVE = (minus \<or> bang);
          tok3 = (if MODE_REMOVE then tok2 else snd (skip_char CHR ''+'' tok2));
          (option, val, tok4) =
            (case int64 16 None tok3 of
               Some (hex, t) \<Rightarrow> ([], word_of_int hex, t)
             | None \<Rightarrow>
                (case prefix optChars tok3 of
                   Some (name, t) \<Rightarrow> (name, find_option (ssl_options B) name, t)
                 | None \<Rightarrow> ([], 0, tok3)))
      in if val \<noteq> 0
         then (tok4, (if MODE_REMOVE then op AND NOT val else op OR val), lg)
         else (tok4, op, lg @ [''ERROR: Unknown TLS option '' @ option]))"

text \<open>
  Every tokenizer operation leaves a text that is no longer than the one it was given.
\<close>

lemma skip_char_length: "length (snd (skip_char c tok)) \<le> length tok"
  by (simp add: skip_char_def split: list.split)

lemma int64_length: "int64 base limit tok = Some (v, t) \<Longrightarrow> length t \<le> length tok"
  by (auto simp: int64_def Let_def split: if_splits)

lemma prefix_length: "prefix cs tok = Some (name, t) \<Longrightarrow> length t \<le> length tok"
  by (auto simp: prefix_def length_dropWhile_le split: if_splits)

lemma parseOptions_term_length:
  assumes "parseOptions_term B tok op lg = (tok', op', lg')"
  shows "length tok' \<le> length tok"
proof -
  obtain minus tok1 where m: "skip_char CHR ''-'' tok = (minus, tok1)"
    by (cases "skip_char CHR ''-'' tok")
  obtain bang tok2 where b:
    "(if minus then (False, tok1) else skip_char CHR ''!'' tok1) = (bang, tok2)"
    by (cases "if minus then (False, tok1) else skip_char CHR ''!'' tok1")
  define tok3 where "tok3 = (if minus \<or> bang then tok2 else snd (skip_char CHR ''+'' tok2))"
  have l1: "length tok1 \<le> length tok"
    using skip_char_length [of "CHR ''-''" tok] m by simp
  have l2: "length tok2 \<le> length tok1"
    using skip_char_length [of "CHR ''!''" tok1] b by (auto split: if_splits)
  have l3: "length tok3 \<le> length tok2"
    using skip_char_length [of "CHR ''+''" tok2] by (simp add: tok3_def)
  have l4: "length tok' \<le> length tok3"
    using assms m b int64_length [of 16 None tok3] prefix_length [of optChars tok3]
    by (auto simp: parseOptions_term_def Let_def tok3_def
             split: option.splits if_splits prod.splits)
  from l1 l2 l3 l4 show ?thesis by linarith
qed

text \<open>
  The \<open>do ... while (!tok.atEnd())\<close> loop. After a term the delimiters are skipped; text
  that is neither a delimiter nor the end is fatal.
\<close>

function parseOptions_loop ::
  "build_config \<Rightarrow> Tokenizer \<Rightarrow> long \<Rightarrow> debug_log \<Rightarrow> error + (long \<times> debug_log)" where
  "parseOptions_loop B tok op lg =
     (case parseOptions_term B tok op lg of
        (tok4, op', lg') \<Rightarrow>
          (case skipAll delims tok4 of
             (n, tok5) \<Rightarrow>
               if n = 0 \<and> \<not> atEnd tok5
               then Inl (Fatal (''Unknown TLS option '' @ [CHR 0x27] @ remaining tok5 @ [CHR 0x27]))
               else if \<not> atEnd tok5 then parseOptions_loop B tok5 op' lg'
               else Inr (op', lg')))"
  by pat_completeness auto
termination
proof (relation "measure (\<lambda>(B, tok, op, lg). length tok)")
  show "wf (measure (\<lambda>(B, tok, op, lg). length tok))" by simp
next
  fix B :: build_config and tok :: Tokenizer and op :: long and lg :: debug_log
    and x tok4 y op' lg' xa n tok5
  assume t: "(tok4, y) = parseOptions_term B tok op lg" "(op', lg') = y"
    and s: "(n, tok5) = skipAll delims tok4"
    and c: "\<not> (n = 0 \<and> \<not> atEnd tok5)" "\<not> atEnd tok5"
  from t have "parseOptions_term B tok op lg = (tok4, op', lg')" by simp
  then have l: "length tok4 \<le> length tok" by (rule parseOptions_term_length)
  from s c have "takeWhile delims tok4 \<noteq> []" by (auto simp: skipAll_def)
  then have "length (dropWhile delims tok4) < length tok4"
    by (cases tok4) (auto simp: le_imp_less_Suc length_dropWhile_le split: if_splits)
  with s l show "((B, tok5, op', lg'), (B, tok, op, lg)) \<in> measure (\<lambda>(B, tok, op, lg). length tok)"
    by (simp add: skipAll_def)
qed

declare parseOptions_loop.simps [simp del]

text \<open>
  \<open>parseOptions()\<close> reads \<open>sslOptions\<close>, starts from \<open>op = 0\<close> and, where the library has
  \<open>SSL_OP_NO_SSLv2\<close>, sets that bit last (RFC 6176).
\<close>

definition parseOptions :: "build_config \<Rightarrow> PeerOptions \<Rightarrow> error + (long \<times> debug_log)" where
  "parseOptions B p =
     (case parseOptions_loop B (sslOptions p) 0 [] of
        Inl e \<Rightarrow> Inl e
      | Inr (op, lg) \<Rightarrow>
          Inr ((if SSL_OP B SSL_OP_NO_SSLv2 \<noteq> 0 then op OR SSL_OP B SSL_OP_NO_SSLv2 else op), lg))"

subsection \<open>parseFlags\<close>

text \<open>
  The static table \<open>flagTokens\<close>; the two CRL labels are compiled in when
  \<open>X509_V_FLAG_CRL_CHECK\<close> is defined, and the entry with mask 0 ends the table.
\<close>

definition flagTokens :: "build_config \<Rightarrow> (SBuf \<times> long) list" where
  "flagTokens B =
     [ (''NO_DEFAULT_CA'', SSL_FLAG_NO_DEFAULT_CA B),
       (''DELAYED_AUTH'', SSL_FLAG_DELAYED_AUTH B),
       (''DONT_VERIFY_PEER'', SSL_FLAG_DONT_VERIFY_PEER B),
       (''DONT_VERIFY_DOMAIN'', SSL_FLAG_DONT_VERIFY_DOMAIN B),
       (''NO_SESSION_REUSE'', SSL_FLAG_NO_SESSION_REUSE B) ]
     @ (if X509_V_FLAG_CRL_CHECK B \<noteq> 0
        then [ (''VERIFY_CRL'', SSL_FLAG_VERIFY_CRL B),
               (''VERIFY_CRL_ALL'', SSL_FLAG_VERIFY_CRL_ALL B) ]
        else [])
     @ [ ([], 0) ]"

text \<open>
  The search \<open>for (i = 0; flagTokens[i].mask; ++i)\<close>. Its test is
  \<open>tok.skip(flagTokens[i].label) == 0\<close>: the entry is taken when the skip answers false,
  that is when the text does not start with the label; a label that is skipped is
  consumed and the search goes on with the next entry. It returns \<open>found\<close>.
\<close>

fun flagTokens_search :: "(SBuf \<times> long) list \<Rightarrow> Tokenizer \<Rightarrow> long \<times> Tokenizer" where
  "flagTokens_search [] tok = (0, tok)"
| "flagTokens_search (entry # later) tok =
     (if snd entry = 0 then (0, tok)
      else (case skip (fst entry) tok of
              (skipped, tok') \<Rightarrow>
                if \<not> skipped then (snd entry, tok')
                else flagTokens_search later tok'))"

lemma skip_length: "length (snd (skip t tok)) \<le> length tok"
  by (simp add: skip_def)

lemma flagTokens_search_length: "length (snd (flagTokens_search tbl tok)) \<le> length tok"
proof (induction tbl arbitrary: tok)
  case Nil
  show ?case by simp
next
  case (Cons entry later)
  obtain skipped tok' where s: "skip (fst entry) tok = (skipped, tok')"
    by (cases "skip (fst entry) tok")
  then have "length tok' \<le> length tok"
    using skip_length [of "fst entry" tok] by simp
  moreover have "length (snd (flagTokens_search later tok')) \<le> length tok'"
    by (rule Cons.IH)
  ultimately show ?case using s by simp
qed

text \<open>
  The \<open>do ... while (tok.skipOne(delims))\<close> loop, on the tokenizer, the accumulator
  \<open>fl\<close>, the entity's \<open>flags\<close> and the log.
\<close>

function parseFlags_loop ::
  "build_config \<Rightarrow> Tokenizer \<Rightarrow> long \<Rightarrow> flags_ \<Rightarrow> debug_log
     \<Rightarrow> error + (long \<times> flags_ \<times> debug_log)" where
  "parseFlags_loop B tok fl fs lg =
     (case flagTokens_search (flagTokens B) tok of
        (found, tok1) \<Rightarrow>
          if found = 0
          then Inl (Fatal (''Unknown TLS flag '' @ [CHR 0x27] @ remaining tok1 @ [CHR 0x27]))
          else
            (case (if found = SSL_FLAG_NO_DEFAULT_CA B
                   then (fl, fs\<lparr>tlsDefaultCa := False\<rparr>,
                         lg @ [''UPGRADE WARNING: flags=NO_DEFAULT_CA is deprecated. Use tls-no-default-ca instead.''])
                   else (fl OR found, fs, lg)) of
               (fl', fs', lg') \<Rightarrow>
                 (case skipOne delims tok1 of
                    (again, tok2) \<Rightarrow>
                      if again then parseFlags_loop B tok2 fl' fs' lg'
                      else Inr (fl', fs', lg'))))"
  by pat_completeness auto
termination
proof (relation "measure (\<lambda>(B, tok, fl, fs, lg). length tok)")
  show "wf (measure (\<lambda>(B, tok, fl, fs, lg). length tok))" by simp
next
  fix B :: build_config and tok :: Tokenizer and fl :: long and fs :: flags_
    and lg :: debug_log and found tok1 x fl' y fs' lg' again tok2
  assume a: "(found, tok1) = flagTokens_search (flagTokens B) tok"
    and b: "(again, tok2) = skipOne delims tok1" and c: "again"
  from a have "length tok1 \<le> length tok"
    using flagTokens_search_length [of "flagTokens B" tok] by (metis snd_conv)
  moreover from b c have "length tok2 < length tok1"
    by (cases tok1) (auto simp: skipOne_def split: if_splits)
  ultimately show "((B, tok2, fl', fs', lg'), (B, tok, fl, fs, lg))
      \<in> measure (\<lambda>(B, tok, fl, fs, lg). length tok)"
    by simp
qed

declare parseFlags_loop.simps [simp del]

text \<open>
  \<open>parseFlags()\<close> returns the mask and may clear \<open>flags.tlsDefaultCa\<close> of the entity.
\<close>

definition parseFlags ::
  "build_config \<Rightarrow> PeerOptions \<Rightarrow> error + (long \<times> PeerOptions \<times> debug_log)" where
  "parseFlags B p =
     (if sslFlags p = [] then Inr (0, p, [])
      else (case parseFlags_loop B (sslFlags p) 0 (flags p) [] of
              Inl e \<Rightarrow> Inl e
            | Inr (fl, fs, lg) \<Rightarrow> Inr (fl, p\<lparr>flags := fs\<rparr>, lg)))"

subsection \<open>The run-time environment\<close>

text \<open>
  What the file takes from outside the repository's sources at run time: the number
  parser \<open>xatoi\<close> of the configuration parser (it may abort), the file system as OpenSSL's
  \<open>BIO_new_file\<close> sees it, and the TLS library's answer to each call on a context.
  An open CRL file is the list of the results that successive calls of
  \<open>PEM_read_bio_X509_CRL\<close> give: \<open>Some crl\<close> for a record that parses, \<open>None\<close> for one that
  does not; at the end of the list the call returns NULL.
\<close>

type_synonym BIO = "X509_CRL option list"

datatype backend_call =
    SSL_CTX_load_verify_locations SBuf SBuf
  | SSL_CTX_set_default_verify_paths
  | gnutls_certificate_set_x509_trust_file SBuf
  | gnutls_certificate_set_x509_system_trust

record runtime =
  xatoi :: "string \<Rightarrow> error + int"
  BIO_new_file :: "SBuf \<Rightarrow> BIO option"
  call_succeeds :: "backend_call \<Rightarrow> bool"

subsection \<open>loadCrlFile\<close>

text \<open>The loop \<open>while (X509_CRL *crl = PEM_read_bio_X509_CRL(in, ...))\<close>.\<close>

fun read_crls :: "BIO \<Rightarrow> X509_CRL list" where
  "read_crls [] = []"
| "read_crls (None # later) = []"
| "read_crls (Some crl # later) = crl # read_crls later"

definition loadCrlFile :: "build_config \<Rightarrow> runtime \<Rightarrow> PeerOptions \<Rightarrow> PeerOptions \<times> debug_log" where
  "loadCrlFile B R p =
     (if crlFile p = [] then (p\<lparr>parsedCrl := []\<rparr>, [])
      else if tls_lib B = OpenSSL then
        (case BIO_new_file R (crlFile p) of
           None \<Rightarrow> (p\<lparr>parsedCrl := []\<rparr>, [''WARNING: Failed to open CRL file '' @ crlFile p])
         | Some bio \<Rightarrow> (p\<lparr>parsedCrl := [] @ read_crls bio\<rparr>, []))
      else (p\<lparr>parsedCrl := []\<rparr>, []))"

subsection \<open>parse\<close>

text \<open>\<open>strncmp(s1, s2, n) == 0\<close> on strings without NUL.\<close>

definition strncmp_is_0 :: "string \<Rightarrow> string \<Rightarrow> nat \<Rightarrow> bool" where
  "strncmp_is_0 s1 s2 n = (take n s1 = take n s2)"

definition parse ::
  "build_config \<Rightarrow> runtime \<Rightarrow> string \<Rightarrow> PeerOptions \<Rightarrow> error + (PeerOptions \<times> debug_log)" where
  "parse B R token p =
     (if token = [] then Inr (p\<lparr>encryptTransport := True\<rparr>, [])
      else if strncmp_is_0 token ''disable'' 7 then Inr (clear p, [])
      else if strncmp_is_0 token ''cert='' 5 then
        Inr (p\<lparr>certs := certs p @ [\<lparr>certFile = drop 5 token, privateKeyFile = drop 5 token\<rparr>],
               encryptTransport := True\<rparr>, [])
      else if strncmp_is_0 token ''key='' 4 then
        (if certs p = [] \<or> certFile (last (certs p)) = []
         then Inr (p, [''ERROR: cert= option must be set before key= is used.''])
         else Inr (p\<lparr>certs := butlast (certs p) @ [(last (certs p))\<lparr>privateKeyFile := drop 4 token\<rparr>],
                     encryptTransport := True\<rparr>, []))
      else if strncmp_is_0 token ''version='' 8 then
        (case xatoi R (drop 8 token) of
           Inl e \<Rightarrow> Inl e
         | Inr v \<Rightarrow>
             Inr (p\<lparr>sslVersion := v, encryptTransport := True\<rparr>,
                  [''UPGRADE WARNING: SSL version= is deprecated. Use options= to limit protocols instead.'']))
      else if strncmp_is_0 token ''min-version='' 12 then
        Inr (p\<lparr>tlsMinVersion := drop 12 token, encryptTransport := True\<rparr>, [])
      else if strncmp_is_0 token ''options='' 8 then
        (case parseOptions B (p\<lparr>sslOptions := drop 8 token\<rparr>) of
           Inl e \<Rightarrow> Inl e
         | Inr (op, lg) \<Rightarrow>
             Inr (p\<lparr>sslOptions := drop 8 token, parsedOptions := op, encryptTransport := True\<rparr>, lg))
      else if strncmp_is_0 token ''cipher='' 7 then
        Inr (p\<lparr>sslCipher := drop 7 token, encryptTransport := True\<rparr>, [])
      else if strncmp_is_0 token ''cafile='' 7 then
        Inr (p\<lparr>caFiles := caFiles p @ [drop 7 token], encryptTransport := True\<rparr>, [])
      else if strncmp_is_0 token ''capath='' 7 then
        Inr (p\<lparr>caDir := drop 7 token, encryptTransport := True\<rparr>,
             (if tls_lib B = OpenSSL then []
              else [''WARNING: capath= option requires --with-openssl.'']))
      else if strncmp_is_0 token ''crlfile='' 8 then
        (case loadCrlFile B R (p\<lparr>crlFile := drop 8 token\<rparr>) of
           (p', lg) \<Rightarrow> Inr (p'\<lparr>encryptTransport := True\<rparr>, lg))
      else if strncmp_is_0 token ''flags='' 6 then
        (case parseFlags B (p\<lparr>sslFlags := drop 6 token\<rparr>) of
           Inl e \<Rightarrow> Inl e
         | Inr (fl, p', lg) \<Rightarrow>
             Inr (p'\<lparr>parsedFlags := fl, encryptTransport := True\<rparr>,
                  (if parsedFlags p \<noteq> 0
                   then [''WARNING: Overwriting flags='' @ sslFlags p @ '' with '' @ drop 6 token]
                   else []) @ lg))
      else if strncmp_is_0 token ''no-default-ca'' 13 then
        Inr (p\<lparr>flags := (flags p)\<lparr>tlsDefaultCa := False\<rparr>, encryptTransport := True\<rparr>, [])
      else if strncmp_is_0 token ''domain='' 7 then
        Inr (p\<lparr>sslDomain := drop 7 token, encryptTransport := True\<rparr>, [])
      else if strncmp_is_0 token ''no-npn'' 6 then
        Inr (p\<lparr>flags := (flags p)\<lparr>tlsNpn := False\<rparr>, encryptTransport := True\<rparr>, [])
      else Inr (p, [''ERROR: Unknown TLS option '' @ [CHR 0x27] @ token @ [CHR 0x27]]))"

text \<open>
  \<open>parse_securePeerOptions\<close>: every token of the configuration line, in order. The token
  source \<open>ConfigParser::NextToken\<close> is the list of the tokens it yields; a fatal abort
  ends the run.
\<close>

fun parse_securePeerOptions ::
  "build_config \<Rightarrow> runtime \<Rightarrow> string list \<Rightarrow> PeerOptions \<Rightarrow> error + (PeerOptions \<times> debug_log)" where
  "parse_securePeerOptions B R [] opt = Inr (opt, [])"
| "parse_securePeerOptions B R (token # later) opt =
     (case parse B R token opt of
        Inl e \<Rightarrow> Inl e
      | Inr (opt', lg) \<Rightarrow>
          (case parse_securePeerOptions B R later opt' of
             Inl e \<Rightarrow> Inl e
           | Inr (opt'', lg') \<Rightarrow> Inr (opt'', lg @ lg')))"

subsection \<open>updateTlsVersionLimits\<close>

text \<open>
  The test \<open>tok.skip('1') && tok.skip('.') && tok.int64(v, 10, false, 1) && v <= 3\<close> on a
  tokenizer over \<open>tlsMinVersion\<close>: the value \<open>v\<close> when it holds. The number is read from
  one character (\<open>limit = 1\<close>), and nothing looks at the text behind it.
\<close>

definition tlsMinVersion_minor :: "SBuf \<Rightarrow> int option" where
  "tlsMinVersion_minor version =
     (case skip_char CHR ''1'' version of
        (one, tok1) \<Rightarrow>
          if \<not> one then None
          else (case skip_char CHR ''.'' tok1 of
                  (dot, tok2) \<Rightarrow>
                    if \<not> dot then None
                    else (case int64 10 (Some 1) tok2 of
                            None \<Rightarrow> None
                          | Some (v, tok3) \<Rightarrow> if v \<le> 3 then Some v else None)))"

text \<open>\<open>#if SSL_OP_X\<close> \<open>if (cond) parsedOptions |= SSL_OP_X;\<close> \<open>#endif\<close>\<close>

definition or_if_defined :: "build_config \<Rightarrow> ssl_op_macro \<Rightarrow> bool \<Rightarrow> long \<Rightarrow> long" where
  "or_if_defined B m cond opts =
     (if SSL_OP B m \<noteq> 0 \<and> cond then opts OR SSL_OP B m else opts)"

definition updateTlsVersionLimits :: "build_config \<Rightarrow> PeerOptions \<Rightarrow> PeerOptions \<times> debug_log" where
  "updateTlsVersionLimits B p =
     (if tlsMinVersion p \<noteq> [] then
        (case tlsMinVersion_minor (tlsMinVersion p) of
           Some v \<Rightarrow>
             (p\<lparr>parsedOptions :=
                  or_if_defined B SSL_OP_NO_TLSv1_2 (v > 2)
                    (or_if_defined B SSL_OP_NO_TLSv1_1 (v > 1)
                       (or_if_defined B SSL_OP_NO_TLSv1 (v > 0) (parsedOptions p)))\<rparr>, [])
         | None \<Rightarrow> (p, [''WARNING: Unknown TLS minimum version: '' @ tlsMinVersion p]))
      else if sslVersion p > 2 then
        (let add = (if sslVersion p = 3 then Some ''NO_TLSv1,NO_TLSv1_1,NO_TLSv1_2''
                    else if sslVersion p = 4 then Some ''NO_SSLv3,NO_TLSv1_1,NO_TLSv1_2''
                    else if sslVersion p = 5 then Some ''NO_SSLv3,NO_TLSv1,NO_TLSv1_2''
                    else if sslVersion p = 6 then Some ''NO_SSLv3,NO_TLSv1,NO_TLSv1_1''
                    else None)
         in (case add of
               Some names \<Rightarrow>
                 (p\<lparr>sslOptions := (if sslOptions p \<noteq> [] then sslOptions p @ '','' else sslOptions p) @ names,
                    sslVersion := 0\<rparr>, [])
             | None \<Rightarrow> (p\<lparr>sslVersion := 0\<rparr>, [])))
      else (p, []))"

subsection \<open>updateContextCa\<close>

text \<open>
  A context is the list of the library calls made on it so far. The loop
  \<open>for (auto i : caFiles)\<close> makes one call for each file; with OpenSSL that call carries
  \<open>caDir\<close> as its directory argument. A call that fails is logged and the loop goes on.
\<close>

type_synonym Context = "backend_call list"

fun updateContextCa_files ::
  "build_config \<Rightarrow> runtime \<Rightarrow> SBuf \<Rightarrow> SBuf list \<Rightarrow> Context \<Rightarrow> debug_log \<Rightarrow> Context \<times> debug_log" where
  "updateContextCa_files B R dir [] ctx lg = (ctx, lg)"
| "updateContextCa_files B R dir (i # later) ctx lg =
     (case tls_lib B of
        OpenSSL \<Rightarrow>
          updateContextCa_files B R dir later (ctx @ [SSL_CTX_load_verify_locations i dir])
            (if call_succeeds R (SSL_CTX_load_verify_locations i dir) then lg
             else lg @ [''WARNING: Ignoring error setting CA certificate locations: ''])
      | GnuTLS \<Rightarrow>
          updateContextCa_files B R dir later (ctx @ [gnutls_certificate_set_x509_trust_file i])
            (if call_succeeds R (gnutls_certificate_set_x509_trust_file i) then lg
             else lg @ [''WARNING: Ignoring error setting CA certificate location: '' @ i])
      | NoTlsLibrary \<Rightarrow> updateContextCa_files B R dir later ctx lg)"

definition updateContextCa ::
  "build_config \<Rightarrow> runtime \<Rightarrow> PeerOptions \<Rightarrow> Context \<Rightarrow> Context \<times> debug_log" where
  "updateContextCa B R p ctx =
     (case updateContextCa_files B R (caDir p) (caFiles p) ctx
             [''Setting CA certificate locations.''] of
        (ctx1, lg) \<Rightarrow>
          if \<not> tlsDefaultCa (flags p) then (ctx1, lg)
          else (case tls_lib B of
                  OpenSSL \<Rightarrow>
                    (ctx1 @ [SSL_CTX_set_default_verify_paths],
                     if call_succeeds R SSL_CTX_set_default_verify_paths then lg
                     else lg @ [''WARNING: Ignoring error setting default trusted CA : ''])
                | GnuTLS \<Rightarrow>
                    (ctx1 @ [gnutls_certificate_set_x509_system_trust],
                     if call_succeeds R gnutls_certificate_set_x509_system_trust then lg
                     else lg @ [''WARNING: Ignoring error setting default trusted CA.''])
                | NoTlsLibrary \<Rightarrow> (ctx1, lg)))"

subsection \<open>A sample build and environment\<close>

text \<open>
  A build with OpenSSL in which the five protocol bits carry the values OpenSSL 1.0.x
  gives them and no other option macro is defined; the \<open>SSL_FLAG_*\<close> masks are the
  successive bits from 1. The theorems below that hold for every build are stated for
  every build; this one is where they are evaluated.
\<close>

definition sample_SSL_OP :: "ssl_op_macro \<Rightarrow> long" where
  "sample_SSL_OP m =
     (case m of
        SSL_OP_NO_SSLv2 \<Rightarrow> 0x01000000
      | SSL_OP_NO_SSLv3 \<Rightarrow> 0x02000000
      | SSL_OP_NO_TLSv1 \<Rightarrow> 0x04000000
      | SSL_OP_NO_TLSv1_2 \<Rightarrow> 0x08000000
      | SSL_OP_NO_TLSv1_1 \<Rightarrow> 0x10000000
      | _ \<Rightarrow> 0)"

definition sample_build :: build_config where
  "sample_build =
     \<lparr> tls_lib = OpenSSL, SSL_OP = sample_SSL_OP,
       SSL_FLAG_NO_DEFAULT_CA = 0x01, SSL_FLAG_DELAYED_AUTH = 0x02,
       SSL_FLAG_DONT_VERIFY_PEER = 0x04, SSL_FLAG_DONT_VERIFY_DOMAIN = 0x08,
       SSL_FLAG_NO_SESSION_REUSE = 0x10, SSL_FLAG_VERIFY_CRL = 0x20,
       SSL_FLAG_VERIFY_CRL_ALL = 0x40, X509_V_FLAG_CRL_CHECK = 0x04 \<rparr>"

definition gnutls_build :: build_config where
  "gnutls_build = sample_build\<lparr> tls_lib := GnuTLS, SSL_OP := (\<lambda>m. 0), X509_V_FLAG_CRL_CHECK := 0 \<rparr>"

text \<open>
  An environment with one CRL file of three records, in which every library call
  succeeds; \<open>xatoi\<close> is not needed by the examples and aborts.
\<close>

definition sample_runtime :: runtime where
  "sample_runtime =
     \<lparr> xatoi = (\<lambda>s. Inl (Fatal ''xatoi'')),
       BIO_new_file = (\<lambda>path. if path = ''/etc/squid/crl.pem''
                              then Some [Some (X509_CRL 1), Some (X509_CRL 2), Some (X509_CRL 3)]
                              else None),
       call_succeeds = (\<lambda>c. True) \<rparr>"

subsection \<open>The version floor as the specification words it\<close>

text \<open>
  The specification of \<open>updateTlsVersionLimits\<close> (4.4): the "disable protocol below floor"
  bits for each protocol version strictly below \<open>1.N\<close> that the backend supports. The
  versions are TLS 1.0, 1.1 and 1.2; a bit the library does not define is 0.
\<close>

definition disable_bits_below :: "build_config \<Rightarrow> nat \<Rightarrow> long" where
  "disable_bits_below B N =
     (if 0 < N then SSL_OP B SSL_OP_NO_TLSv1 else 0)
     OR (if 1 < N then SSL_OP B SSL_OP_NO_TLSv1_1 else 0)
     OR (if 2 < N then SSL_OP B SSL_OP_NO_TLSv1_2 else 0)"

section \<open>Properties\<close>

subsection \<open>Directive recognition\<close>

text \<open>
  C10. \<open>parse\<close> recognises a directive by its leading characters only. Every token that
  starts with \<open>disable\<close> resets the entity to its defaults, whatever follows the seven
  characters, and every token that starts with \<open>no-default-ca\<close> or with \<open>no-npn\<close> is
  that directive: it clears the flag and enables TLS, and is not reported as an unknown
  option.
\<close>

theorem parse_directive_by_prefix:
  "parse B R (''disable'' @ x) p = parse B R ''disable'' p
   \<and> parse B R ''disable'' p = Inr (PeerOptions_default, [])
   \<and> parse B R (''no-default-ca'' @ x) p = parse B R ''no-default-ca'' p
   \<and> parse B R ''no-default-ca'' p
       = Inr (p\<lparr>flags := (flags p)\<lparr>tlsDefaultCa := False\<rparr>, encryptTransport := True\<rparr>, [])
   \<and> parse B R (''no-npn'' @ x) p = parse B R ''no-npn'' p
   \<and> parse B R ''no-npn'' p
       = Inr (p\<lparr>flags := (flags p)\<lparr>tlsNpn := False\<rparr>, encryptTransport := True\<rparr>, [])"
  by (simp add: parse_def strncmp_is_0_def clear_def)

subsection \<open>Credentials\<close>

text \<open>
  C8. \<open>cert=/a.pem\<close> followed by \<open>key=/a.key\<close> adds one credential, with certificate
  \<open>/a.pem\<close> and private key \<open>/a.key\<close>, so an entity without credentials has exactly that
  one afterwards. \<open>key=/x.key\<close> on an entity that has no credential, or whose last
  credential has an empty certificate path, logs the error and returns the entity as it
  was, in every field.
\<close>

theorem parse_cert_then_key:
  "parse_securePeerOptions B R [''cert=/a.pem'', ''key=/a.key''] p
     = Inr (p\<lparr>certs := certs p @ [\<lparr>certFile = ''/a.pem'', privateKeyFile = ''/a.key''\<rparr>],
              encryptTransport := True\<rparr>, [])
   \<and> (certs q = [] \<or> certFile (last (certs q)) = [] \<longrightarrow>
        parse B R ''key=/x.key'' q
          = Inr (q, [''ERROR: cert= option must be set before key= is used.'']))"
  by (simp add: parse_def strncmp_is_0_def)

theorem parse_cert_then_key_witness:
  "parse_securePeerOptions sample_build sample_runtime [''cert=/a.pem'', ''key=/a.key'']
       PeerOptions_default
     = Inr (PeerOptions_default
              \<lparr>certs := [\<lparr>certFile = ''/a.pem'', privateKeyFile = ''/a.key''\<rparr>],
               encryptTransport := True\<rparr>, [])
   \<and> parse sample_build sample_runtime ''key=/x.key'' PeerOptions_default
     = Inr (PeerOptions_default, [''ERROR: cert= option must be set before key= is used.''])
   \<and> parse sample_build sample_runtime ''key=/x.key''
       (PeerOptions_default\<lparr>certs := [\<lparr>certFile = [], privateKeyFile = []\<rparr>]\<rparr>)
     = Inr (PeerOptions_default\<lparr>certs := [\<lparr>certFile = [], privateKeyFile = []\<rparr>]\<rparr>,
            [''ERROR: cert= option must be set before key= is used.''])"
  using parse_cert_then_key [of sample_build sample_runtime PeerOptions_default PeerOptions_default]
    parse_cert_then_key [of sample_build sample_runtime PeerOptions_default
      "PeerOptions_default\<lparr>certs := [\<lparr>certFile = [], privateKeyFile = []\<rparr>]\<rparr>"]
  by (simp add: PeerOptions_default_def)

subsection \<open>The options bitmask\<close>

text \<open>
  C4. Whatever the text of \<open>sslOptions\<close> is, remove terms included, a value that
  \<open>parseOptions\<close> returns has the library's \<open>SSL_OP_NO_SSLv2\<close> bit set (all of the
  macro's bits; none when the library does not define it): the bit is set after the
  last term.
\<close>

theorem parseOptions_forces_NO_SSLv2:
  assumes "parseOptions B p = Inr (op, lg)"
  shows "op AND SSL_OP B SSL_OP_NO_SSLv2 = SSL_OP B SSL_OP_NO_SSLv2"
  using assms by (auto simp: parseOptions_def split: sum.splits if_splits prod.splits)

theorem parseOptions_forces_NO_SSLv2_witness:
  "parseOptions sample_build (PeerOptions_default\<lparr>sslOptions := ''NO_TLSv1,-0x1000000''\<rparr>)
     = Inr (0x5000000, [])
   \<and> (0x5000000 :: long) AND SSL_OP sample_build SSL_OP_NO_SSLv2
     = SSL_OP sample_build SSL_OP_NO_SSLv2"
proof -
  have returns:
    "parseOptions sample_build (PeerOptions_default\<lparr>sslOptions := ''NO_TLSv1,-0x1000000''\<rparr>)
       = Inr (0x5000000, [])"
    by code_simp
  show ?thesis
    by (rule conjI [OF returns parseOptions_forces_NO_SSLv2 [OF returns]])
qed

subsection \<open>The flags bitmask\<close>

text \<open>
  C1. \<open>parseFlags\<close> on \<open>DONT_VERIFY_PEER:NO_SESSION_REUSE\<close> and on \<open>BOGUS\<close>, evaluated. The
  search takes the first label that the text does not start with, which is
  \<open>NO_DEFAULT_CA\<close> for both texts: the call returns the mask 0, clears
  \<open>flags.tlsDefaultCa\<close> and logs the deprecation warning. Neither the two masks are
  returned for the first text nor is the second one fatal.
\<close>

theorem parseFlags_takes_first_unmatched_label:
  "parseFlags sample_build (PeerOptions_default\<lparr>sslFlags := ''DONT_VERIFY_PEER:NO_SESSION_REUSE''\<rparr>)
     = Inr (0, PeerOptions_default\<lparr>sslFlags := ''DONT_VERIFY_PEER:NO_SESSION_REUSE'',
                                    flags := \<lparr>tlsDefaultCa = False, tlsNpn = True\<rparr>\<rparr>,
            [''UPGRADE WARNING: flags=NO_DEFAULT_CA is deprecated. Use tls-no-default-ca instead.''])
   \<and> parseFlags sample_build (PeerOptions_default\<lparr>sslFlags := ''BOGUS''\<rparr>)
     = Inr (0, PeerOptions_default\<lparr>sslFlags := ''BOGUS'',
                                    flags := \<lparr>tlsDefaultCa = False, tlsNpn = True\<rparr>\<rparr>,
            [''UPGRADE WARNING: flags=NO_DEFAULT_CA is deprecated. Use tls-no-default-ca instead.''])"
  by code_simp

subsection \<open>Version reconciliation\<close>

text \<open>
  C5. With \<open>tlsMinVersion\<close> empty and \<open>sslVersion = 4\<close>, \<open>updateTlsVersionLimits\<close> appends
  \<open>NO_SSLv3,NO_TLSv1_1,NO_TLSv1_2\<close> to \<open>sslOptions\<close>, after a comma when \<open>sslOptions\<close> was
  not empty, sets \<open>sslVersion\<close> to 0, changes no other field and logs nothing. A second
  call on the result changes nothing.
\<close>

theorem updateTlsVersionLimits_legacy_once:
  assumes "tlsMinVersion p = []" and "sslVersion p = 4"
  shows "updateTlsVersionLimits B p
           = (p\<lparr>sslOptions := (if sslOptions p = [] then [] else sslOptions p @ '','')
                                 @ ''NO_SSLv3,NO_TLSv1_1,NO_TLSv1_2'',
                 sslVersion := 0\<rparr>, [])
         \<and> updateTlsVersionLimits B (fst (updateTlsVersionLimits B p))
           = (fst (updateTlsVersionLimits B p), [])"
  using assms by (simp add: updateTlsVersionLimits_def)

theorem updateTlsVersionLimits_legacy_once_witness:
  "updateTlsVersionLimits sample_build (PeerOptions_default\<lparr>sslOptions := ''NO_TICKET'', sslVersion := 4\<rparr>)
     = (PeerOptions_default\<lparr>sslOptions := ''NO_TICKET,NO_SSLv3,NO_TLSv1_1,NO_TLSv1_2'',
                             sslVersion := 0\<rparr>, [])
   \<and> updateTlsVersionLimits sample_build
       (PeerOptions_default\<lparr>sslOptions := ''NO_TICKET,NO_SSLv3,NO_TLSv1_1,NO_TLSv1_2'',
                             sslVersion := 0\<rparr>)
     = (PeerOptions_default\<lparr>sslOptions := ''NO_TICKET,NO_SSLv3,NO_TLSv1_1,NO_TLSv1_2'',
                             sslVersion := 0\<rparr>, [])"
proof -
  let ?p = "PeerOptions_default\<lparr>sslOptions := ''NO_TICKET'', sslVersion := 4\<rparr>"
  have unset: "tlsMinVersion ?p = []" and legacy: "sslVersion ?p = 4"
    by (simp_all add: PeerOptions_default_def)
  note both = updateTlsVersionLimits_legacy_once [OF unset legacy, of sample_build]
  note first = conjunct1 [OF both] and again = conjunct2 [OF both]
  from first again show ?thesis
    by (simp add: PeerOptions_default_def)
qed

text \<open>
  The test on \<open>tlsMinVersion\<close> holds exactly for the texts that start with \<open>1.0\<close>, \<open>1.1\<close>,
  \<open>1.2\<close> or \<open>1.3\<close>.
\<close>

lemma tlsMinVersion_minor_accepts:
  assumes "N \<le> 3" and "take 3 t = ''1.'' @ [''0123'' ! N]"
  shows "tlsMinVersion_minor t = Some (int N)"
proof -
  from assms(2) obtain rest where t: "t = CHR ''1'' # CHR ''.'' # (''0123'' ! N) # rest"
    by (cases t; cases "tl t"; cases "tl (tl t)") auto
  from assms(1) consider "N = 0" | "N = 1" | "N = 2" | "N = 3" by linarith
  then show ?thesis
    by cases
      (simp_all add: t tlsMinVersion_minor_def skip_char_def int64_def digit_value_def DIGIT_def)
qed

lemma small_digit_char:
  assumes "DIGIT d" and "of_char d - (48::nat) \<le> 3"
  shows "d \<in> set ''0123''"
proof -
  from assms have "of_char d = (48::nat) \<or> of_char d = (49::nat)
      \<or> of_char d = (50::nat) \<or> of_char d = (51::nat)"
    by (auto simp: DIGIT_def)
  then have "(of_char d :: nat) = of_char CHR ''0'' \<or> (of_char d :: nat) = of_char CHR ''1''
      \<or> (of_char d :: nat) = of_char CHR ''2'' \<or> (of_char d :: nat) = of_char CHR ''3''"
    by simp
  then have "d = CHR ''0'' \<or> d = CHR ''1'' \<or> d = CHR ''2'' \<or> d = CHR ''3''"
    by (simp only: of_char_eq_iff)
  then show ?thesis by auto
qed

lemma tlsMinVersion_minor_rejects:
  assumes "take 3 t \<notin> set [''1.0'', ''1.1'', ''1.2'', ''1.3'']"
  shows "tlsMinVersion_minor t = None"
proof (rule ccontr)
  assume "tlsMinVersion_minor t \<noteq> None"
  then obtain v where v: "tlsMinVersion_minor t = Some v" by auto
  then obtain d rest where t: "t = CHR ''1'' # CHR ''.'' # d # rest"
    by (cases t; cases "tl t"; cases "tl (tl t)")
       (auto simp: tlsMinVersion_minor_def skip_char_def int64_def split: if_splits)
  from v have "DIGIT d \<and> of_char d - (48::nat) \<le> 3"
    by (auto simp: t tlsMinVersion_minor_def skip_char_def int64_def digit_value_def Let_def
             split: if_splits option.splits)
  then have "d \<in> set ''0123''" using small_digit_char by blast
  with assms t show False by auto
qed

text \<open>
  C6, as the code has it. When \<open>tlsMinVersion\<close> is set, \<open>updateTlsVersionLimits\<close> looks at
  its first three characters only. When they are \<open>1.N\<close> with a digit \<open>N\<close> from 0 to 3 it
  ORs into \<open>parsedOptions\<close> exactly the disable bits of the supported protocol versions
  strictly below \<open>1.N\<close>, whatever follows the digit, and logs nothing. When they are not,
  it logs the warning and changes no field.
\<close>

theorem updateTlsVersionLimits_min_version:
  "(N \<le> 3 \<and> take 3 (tlsMinVersion p) = ''1.'' @ [''0123'' ! N] \<longrightarrow>
      updateTlsVersionLimits B p
        = (p\<lparr>parsedOptions := parsedOptions p OR disable_bits_below B N\<rparr>, []))
   \<and> (tlsMinVersion q \<noteq> []
        \<and> take 3 (tlsMinVersion q) \<notin> set [''1.0'', ''1.1'', ''1.2'', ''1.3''] \<longrightarrow>
      updateTlsVersionLimits B q
        = (q, [''WARNING: Unknown TLS minimum version: '' @ tlsMinVersion q]))"
proof (intro conjI impI)
  assume a: "N \<le> 3 \<and> take 3 (tlsMinVersion p) = ''1.'' @ [''0123'' ! N]"
  then have m: "tlsMinVersion_minor (tlsMinVersion p) = Some (int N)"
    using tlsMinVersion_minor_accepts by blast
  from a have ne: "tlsMinVersion p \<noteq> []" by auto
  from a consider "N = 0" | "N = 1" | "N = 2" | "N = 3" by linarith
  then have "or_if_defined B SSL_OP_NO_TLSv1_2 (int N > 2)
                (or_if_defined B SSL_OP_NO_TLSv1_1 (int N > 1)
                   (or_if_defined B SSL_OP_NO_TLSv1 (int N > 0) (parsedOptions p)))
      = parsedOptions p OR disable_bits_below B N"
    by cases (simp_all add: or_if_defined_def disable_bits_below_def ac_simps)
  with m ne show "updateTlsVersionLimits B p
        = (p\<lparr>parsedOptions := parsedOptions p OR disable_bits_below B N\<rparr>, [])"
    by (simp add: updateTlsVersionLimits_def)
next
  assume a: "tlsMinVersion q \<noteq> []
    \<and> take 3 (tlsMinVersion q) \<notin> set [''1.0'', ''1.1'', ''1.2'', ''1.3'']"
  then have "tlsMinVersion_minor (tlsMinVersion q) = None"
    using tlsMinVersion_minor_rejects by blast
  with a show "updateTlsVersionLimits B q
        = (q, [''WARNING: Unknown TLS minimum version: '' @ tlsMinVersion q])"
    by (simp add: updateTlsVersionLimits_def)
qed

theorem updateTlsVersionLimits_min_version_witness:
  "updateTlsVersionLimits sample_build (PeerOptions_default\<lparr>tlsMinVersion := ''1.1''\<rparr>)
     = (PeerOptions_default\<lparr>tlsMinVersion := ''1.1'', parsedOptions := 0x04000000\<rparr>, [])
   \<and> updateTlsVersionLimits sample_build (PeerOptions_default\<lparr>tlsMinVersion := ''1.9''\<rparr>)
     = (PeerOptions_default\<lparr>tlsMinVersion := ''1.9''\<rparr>,
        [''WARNING: Unknown TLS minimum version: 1.9''])"
  using updateTlsVersionLimits_min_version
    [of 1 "PeerOptions_default\<lparr>tlsMinVersion := ''1.1''\<rparr>" sample_build
        "PeerOptions_default\<lparr>tlsMinVersion := ''1.9''\<rparr>"]
  by (simp add: disable_bits_below_def sample_build_def sample_SSL_OP_def PeerOptions_default_def)

text \<open>
  C6, the exact form. \<open>1.1x\<close> is not of the form \<open>1.N\<close>, and \<open>updateTlsVersionLimits\<close>
  accepts it as \<open>1.1\<close>: \<open>parsedOptions\<close>, 0 before the call, has the \<open>SSL_OP_NO_TLSv1\<close> bit
  after it, and nothing is logged.
\<close>

theorem min_version_trailing_text_accepted:
  "parsedOptions (PeerOptions_default\<lparr>tlsMinVersion := ''1.1x''\<rparr>) = 0
   \<and> updateTlsVersionLimits sample_build (PeerOptions_default\<lparr>tlsMinVersion := ''1.1x''\<rparr>)
     = (PeerOptions_default\<lparr>tlsMinVersion := ''1.1x'', parsedOptions := 0x04000000\<rparr>, [])"
  by code_simp

subsection \<open>Trust configuration\<close>

text \<open>
  C7. \<open>updateContextCa\<close> on an entity with a CA directory and no CA file, evaluated in a
  build with OpenSSL. The directory is an argument of the call made for each CA file
  and of no other call: with no CA file the only call on the context is the one that
  loads the system trust store, and \<open>caDir\<close> is not applied.
\<close>

theorem updateContextCa_caDir_needs_a_caFile:
  "updateContextCa sample_build sample_runtime
       (PeerOptions_default\<lparr>caDir := ''/etc/ssl/certs''\<rparr>) []
     = ([SSL_CTX_set_default_verify_paths], [''Setting CA certificate locations.''])"
  by code_simp

subsection \<open>Successive options= directives\<close>

text \<open>
  The search of the compiled table finds what a search of all the entries finds: an
  entry that is left out has the value 0, which is also the value of a name that is
  not found.
\<close>

lemma find_option_absent:
  "name \<notin> fst ` set xs \<Longrightarrow> find_option xs name = 0"
  by (induction xs) auto

lemma find_option_filter:
  assumes "distinct (map fst xs)" and "find_option ys name = 0"
  shows "find_option (filter (\<lambda>e. snd e \<noteq> 0) xs @ ys) name = find_option xs name"
  using assms
proof (induction xs)
  case Nil
  then show ?case by simp
next
  case (Cons e xs)
  then show ?case by (auto simp: find_option_absent)
qed

lemma find_option_ssl_options:
  "find_option (ssl_options B) name = find_option (ssl_option_entries B) name"
  unfolding ssl_options_def
  by (rule find_option_filter) (simp_all add: ssl_option_entries_def)

text \<open>The equations that evaluate \<open>parseOptions\<close> on a given text.\<close>

lemmas parseOptions_eval =
  parseOptions_def parseOptions_loop.simps parseOptions_term_def skip_char_def int64_def
  has_0x_def digit_value_def DIGIT_def prefix_def optChars_def ALPHA_def
  find_option_ssl_options ssl_option_entries_def skipAll_def delims_def atEnd_def

lemma parse_options_directive:
  "parse B R (''options='' @ s) p =
     (case parseOptions B (p\<lparr>sslOptions := s\<rparr>) of
        Inl e \<Rightarrow> Inl e
      | Inr (op, lg) \<Rightarrow>
          Inr (p\<lparr>sslOptions := s, parsedOptions := op, encryptTransport := True\<rparr>, lg))"
  by (simp add: parse_def strncmp_is_0_def split: sum.split prod.split)


lemma parseOptions_two_names:
  assumes "SSL_OP B SSL_OP_NO_TLSv1 \<noteq> 0" and "SSL_OP B SSL_OP_NO_TLSv1_1 \<noteq> 0"
    and "SSL_OP B SSL_OP_NO_TLSv1_2 \<noteq> 0"
  shows "parseOptions B (p\<lparr>sslOptions := ''NO_TLSv1,NO_TLSv1_1''\<rparr>)
    = Inr (SSL_OP B SSL_OP_NO_TLSv1 OR SSL_OP B SSL_OP_NO_TLSv1_1 OR SSL_OP B SSL_OP_NO_SSLv2, [])"
  using assms by (simp add: parseOptions_eval or.assoc)

lemma parseOptions_plus_name:
  assumes "SSL_OP B SSL_OP_NO_TLSv1 \<noteq> 0" and "SSL_OP B SSL_OP_NO_TLSv1_1 \<noteq> 0"
    and "SSL_OP B SSL_OP_NO_TLSv1_2 \<noteq> 0"
  shows "parseOptions B (p\<lparr>sslOptions := ''+NO_TLSv1_2''\<rparr>)
    = Inr (SSL_OP B SSL_OP_NO_TLSv1_2 OR SSL_OP B SSL_OP_NO_SSLv2, [])"
  using assms by (simp add: parseOptions_eval)

lemma parseOptions_minus_name:
  assumes "SSL_OP B SSL_OP_NO_TLSv1 \<noteq> 0" and "SSL_OP B SSL_OP_NO_TLSv1_1 \<noteq> 0"
    and "SSL_OP B SSL_OP_NO_TLSv1_2 \<noteq> 0"
  shows "parseOptions B (p\<lparr>sslOptions := ''-NO_TLSv1''\<rparr>) = Inr (SSL_OP B SSL_OP_NO_SSLv2, [])"
  using assms by (simp add: parseOptions_eval)

lemma parseOptions_three_names:
  assumes "SSL_OP B SSL_OP_NO_TLSv1 \<noteq> 0" and "SSL_OP B SSL_OP_NO_TLSv1_1 \<noteq> 0"
    and "SSL_OP B SSL_OP_NO_TLSv1_2 \<noteq> 0"
  shows "parseOptions B (p\<lparr>sslOptions := ''NO_TLSv1,NO_TLSv1_1,+NO_TLSv1_2''\<rparr>)
    = Inr (SSL_OP B SSL_OP_NO_TLSv1 OR SSL_OP B SSL_OP_NO_TLSv1_1 OR SSL_OP B SSL_OP_NO_TLSv1_2
           OR SSL_OP B SSL_OP_NO_SSLv2, [])"
  using assms by (simp add: parseOptions_eval or.assoc)

lemma parseOptions_three_names_minus:
  assumes "SSL_OP B SSL_OP_NO_TLSv1 \<noteq> 0" and "SSL_OP B SSL_OP_NO_TLSv1_1 \<noteq> 0"
    and "SSL_OP B SSL_OP_NO_TLSv1_2 \<noteq> 0"
  shows "parseOptions B (p\<lparr>sslOptions := ''NO_TLSv1,NO_TLSv1_1,+NO_TLSv1_2,-NO_TLSv1''\<rparr>)
    = Inr (((SSL_OP B SSL_OP_NO_TLSv1 OR SSL_OP B SSL_OP_NO_TLSv1_1 OR SSL_OP B SSL_OP_NO_TLSv1_2)
             AND NOT (SSL_OP B SSL_OP_NO_TLSv1))
           OR SSL_OP B SSL_OP_NO_SSLv2, [])"
  using assms by (simp add: parseOptions_eval or.assoc)

text \<open>
  C3, as the code has it. Every \<open>options=\<close> directive replaces \<open>sslOptions\<close> and computes
  \<open>parsedOptions\<close> from zero. In a build that defines the three bits, after
  \<open>options=NO_TLSv1,NO_TLSv1_1\<close> and then \<open>options=+NO_TLSv1_2\<close> the mask is the
  \<open>NO_TLSv1_2\<close> bit with the forced \<open>NO_SSLv2\<close> bit, and after a further
  \<open>options=-NO_TLSv1\<close> it is the forced bit alone. The three names in one directive set
  all three bits, and a fourth term \<open>-NO_TLSv1\<close> in that directive clears exactly the bits
  of \<open>NO_TLSv1\<close> from them.
\<close>

theorem options_directive_replaces_the_text:
  assumes "SSL_OP B SSL_OP_NO_TLSv1 \<noteq> 0" and "SSL_OP B SSL_OP_NO_TLSv1_1 \<noteq> 0"
    and "SSL_OP B SSL_OP_NO_TLSv1_2 \<noteq> 0"
  shows "parse_securePeerOptions B R [''options=NO_TLSv1,NO_TLSv1_1'', ''options=+NO_TLSv1_2''] p
      = Inr (p\<lparr>sslOptions := ''+NO_TLSv1_2'',
               parsedOptions := SSL_OP B SSL_OP_NO_TLSv1_2 OR SSL_OP B SSL_OP_NO_SSLv2,
               encryptTransport := True\<rparr>, [])
    \<and> parse_securePeerOptions B R
        [''options=NO_TLSv1,NO_TLSv1_1'', ''options=+NO_TLSv1_2'', ''options=-NO_TLSv1''] p
      = Inr (p\<lparr>sslOptions := ''-NO_TLSv1'', parsedOptions := SSL_OP B SSL_OP_NO_SSLv2,
               encryptTransport := True\<rparr>, [])
    \<and> parse B R ''options=NO_TLSv1,NO_TLSv1_1,+NO_TLSv1_2'' p
      = Inr (p\<lparr>sslOptions := ''NO_TLSv1,NO_TLSv1_1,+NO_TLSv1_2'',
               parsedOptions := SSL_OP B SSL_OP_NO_TLSv1 OR SSL_OP B SSL_OP_NO_TLSv1_1
                                OR SSL_OP B SSL_OP_NO_TLSv1_2 OR SSL_OP B SSL_OP_NO_SSLv2,
               encryptTransport := True\<rparr>, [])
    \<and> parse B R ''options=NO_TLSv1,NO_TLSv1_1,+NO_TLSv1_2,-NO_TLSv1'' p
      = Inr (p\<lparr>sslOptions := ''NO_TLSv1,NO_TLSv1_1,+NO_TLSv1_2,-NO_TLSv1'',
               parsedOptions := ((SSL_OP B SSL_OP_NO_TLSv1 OR SSL_OP B SSL_OP_NO_TLSv1_1
                                   OR SSL_OP B SSL_OP_NO_TLSv1_2)
                                  AND NOT (SSL_OP B SSL_OP_NO_TLSv1))
                                OR SSL_OP B SSL_OP_NO_SSLv2,
               encryptTransport := True\<rparr>, [])"
proof -
  have first: "parse B R ''options=NO_TLSv1,NO_TLSv1_1'' q
      = Inr (q\<lparr>sslOptions := ''NO_TLSv1,NO_TLSv1_1'',
               parsedOptions := SSL_OP B SSL_OP_NO_TLSv1 OR SSL_OP B SSL_OP_NO_TLSv1_1
                                OR SSL_OP B SSL_OP_NO_SSLv2,
               encryptTransport := True\<rparr>, [])" for q
    using parse_options_directive [of B R "''NO_TLSv1,NO_TLSv1_1''" q]
    by (simp add: parseOptions_two_names [OF assms])
  have second: "parse B R ''options=+NO_TLSv1_2'' q
      = Inr (q\<lparr>sslOptions := ''+NO_TLSv1_2'',
               parsedOptions := SSL_OP B SSL_OP_NO_TLSv1_2 OR SSL_OP B SSL_OP_NO_SSLv2,
               encryptTransport := True\<rparr>, [])" for q
    using parse_options_directive [of B R "''+NO_TLSv1_2''" q]
    by (simp add: parseOptions_plus_name [OF assms])
  have third: "parse B R ''options=-NO_TLSv1'' q
      = Inr (q\<lparr>sslOptions := ''-NO_TLSv1'', parsedOptions := SSL_OP B SSL_OP_NO_SSLv2,
               encryptTransport := True\<rparr>, [])" for q
    using parse_options_directive [of B R "''-NO_TLSv1''" q]
    by (simp add: parseOptions_minus_name [OF assms])
  have two: "parse_securePeerOptions B R [''options=NO_TLSv1,NO_TLSv1_1'', ''options=+NO_TLSv1_2''] p
      = Inr (p\<lparr>sslOptions := ''+NO_TLSv1_2'',
               parsedOptions := SSL_OP B SSL_OP_NO_TLSv1_2 OR SSL_OP B SSL_OP_NO_SSLv2,
               encryptTransport := True\<rparr>, [])"
    by (simp add: first second)
  have three: "parse_securePeerOptions B R
        [''options=NO_TLSv1,NO_TLSv1_1'', ''options=+NO_TLSv1_2'', ''options=-NO_TLSv1''] p
      = Inr (p\<lparr>sslOptions := ''-NO_TLSv1'', parsedOptions := SSL_OP B SSL_OP_NO_SSLv2,
               encryptTransport := True\<rparr>, [])"
    by (simp add: first second third)
  have one: "parse B R ''options=NO_TLSv1,NO_TLSv1_1,+NO_TLSv1_2'' p
      = Inr (p\<lparr>sslOptions := ''NO_TLSv1,NO_TLSv1_1,+NO_TLSv1_2'',
               parsedOptions := SSL_OP B SSL_OP_NO_TLSv1 OR SSL_OP B SSL_OP_NO_TLSv1_1
                                OR SSL_OP B SSL_OP_NO_TLSv1_2 OR SSL_OP B SSL_OP_NO_SSLv2,
               encryptTransport := True\<rparr>, [])"
    using parse_options_directive [of B R "''NO_TLSv1,NO_TLSv1_1,+NO_TLSv1_2''" p]
    by (simp add: parseOptions_three_names [OF assms])
  have minus: "parse B R ''options=NO_TLSv1,NO_TLSv1_1,+NO_TLSv1_2,-NO_TLSv1'' p
      = Inr (p\<lparr>sslOptions := ''NO_TLSv1,NO_TLSv1_1,+NO_TLSv1_2,-NO_TLSv1'',
               parsedOptions := ((SSL_OP B SSL_OP_NO_TLSv1 OR SSL_OP B SSL_OP_NO_TLSv1_1
                                   OR SSL_OP B SSL_OP_NO_TLSv1_2)
                                  AND NOT (SSL_OP B SSL_OP_NO_TLSv1))
                                OR SSL_OP B SSL_OP_NO_SSLv2,
               encryptTransport := True\<rparr>, [])"
    using parse_options_directive [of B R "''NO_TLSv1,NO_TLSv1_1,+NO_TLSv1_2,-NO_TLSv1''" p]
    by (simp add: parseOptions_three_names_minus [OF assms])
  from two three one minus show ?thesis by blast
qed

theorem options_directive_replaces_the_text_witness:
  "parse_securePeerOptions sample_build sample_runtime
       [''options=NO_TLSv1,NO_TLSv1_1'', ''options=+NO_TLSv1_2''] PeerOptions_default
     = Inr (PeerOptions_default\<lparr>sslOptions := ''+NO_TLSv1_2'', parsedOptions := 0x09000000,
                                   encryptTransport := True\<rparr>, [])
   \<and> parse_securePeerOptions sample_build sample_runtime
       [''options=NO_TLSv1,NO_TLSv1_1'', ''options=+NO_TLSv1_2'', ''options=-NO_TLSv1'']
       PeerOptions_default
     = Inr (PeerOptions_default\<lparr>sslOptions := ''-NO_TLSv1'', parsedOptions := 0x01000000,
                                   encryptTransport := True\<rparr>, [])
   \<and> parse sample_build sample_runtime ''options=NO_TLSv1,NO_TLSv1_1,+NO_TLSv1_2'' PeerOptions_default
     = Inr (PeerOptions_default\<lparr>sslOptions := ''NO_TLSv1,NO_TLSv1_1,+NO_TLSv1_2'',
                                   parsedOptions := 0x1D000000, encryptTransport := True\<rparr>, [])
   \<and> parse sample_build sample_runtime ''options=NO_TLSv1,NO_TLSv1_1,+NO_TLSv1_2,-NO_TLSv1''
       PeerOptions_default
     = Inr (PeerOptions_default\<lparr>sslOptions := ''NO_TLSv1,NO_TLSv1_1,+NO_TLSv1_2,-NO_TLSv1'',
                                   parsedOptions := 0x19000000, encryptTransport := True\<rparr>, [])"
proof -
  have "SSL_OP sample_build SSL_OP_NO_TLSv1 \<noteq> 0" and "SSL_OP sample_build SSL_OP_NO_TLSv1_1 \<noteq> 0"
    and "SSL_OP sample_build SSL_OP_NO_TLSv1_2 \<noteq> 0"
    by (simp_all add: sample_build_def sample_SSL_OP_def)
  from options_directive_replaces_the_text [OF this, of sample_runtime PeerOptions_default]
  show ?thesis
    by (simp add: sample_build_def sample_SSL_OP_def)
qed

text \<open>
  C3, the two directives. After \<open>options=NO_TLSv1,NO_TLSv1_1\<close> and
  \<open>options=+NO_TLSv1_2\<close> the mask is \<open>0x09000000\<close> in the sample build: the \<open>NO_TLSv1\<close> bit
  \<open>0x04000000\<close> of the first directive is not in it.
\<close>

theorem second_options_directive_drops_the_first:
  "parse_securePeerOptions sample_build sample_runtime
       [''options=NO_TLSv1,NO_TLSv1_1'', ''options=+NO_TLSv1_2''] PeerOptions_default
     = Inr (PeerOptions_default\<lparr>sslOptions := ''+NO_TLSv1_2'', parsedOptions := 0x09000000,
                                   encryptTransport := True\<rparr>, [])
   \<and> SSL_OP sample_build SSL_OP_NO_TLSv1 = 0x04000000
   \<and> (0x09000000 :: long) AND 0x04000000 = 0"
  by code_simp

subsection \<open>The cache of the options text\<close>










subsection \<open>The CRL file\<close>

text \<open>
  The loop reads the records in order and ends at the first read that fails, the end
  of the file or a record that does not parse.
\<close>

lemma read_crls_all: "read_crls (map Some records) = records"
  by (induction records) auto

lemma read_crls_until_failure: "read_crls (map Some records @ None # later) = records"
  by (induction records) auto

text \<open>
  C9, as the code has it. \<open>loadCrlFile\<close> always replaces the list parsed before. With an
  empty \<open>crlFile\<close> it returns the empty list and logs nothing. Otherwise, in a build
  with OpenSSL, a file that cannot be opened is logged and leaves the list empty, and a
  file that opens gives one entry for each record that parses, in order (three entries
  for three records, none for none), up to the first record that does not parse: the
  records behind it are not read. In a build without OpenSSL the file is not read and the
  list is empty. No case aborts: the function returns an entity and a log.
\<close>

theorem loadCrlFile_by_build:
  "(crlFile p = [] \<longrightarrow> loadCrlFile B R p = (p\<lparr>parsedCrl := []\<rparr>, []))
   \<and> (crlFile p \<noteq> [] \<and> tls_lib B = OpenSSL \<and> BIO_new_file R (crlFile p) = None \<longrightarrow>
        loadCrlFile B R p
          = (p\<lparr>parsedCrl := []\<rparr>, [''WARNING: Failed to open CRL file '' @ crlFile p]))
   \<and> (crlFile p \<noteq> [] \<and> tls_lib B = OpenSSL
        \<and> BIO_new_file R (crlFile p) = Some (map Some records) \<longrightarrow>
        loadCrlFile B R p = (p\<lparr>parsedCrl := records\<rparr>, []))
   \<and> (crlFile p \<noteq> [] \<and> tls_lib B = OpenSSL
        \<and> BIO_new_file R (crlFile p) = Some (map Some records @ None # later) \<longrightarrow>
        loadCrlFile B R p = (p\<lparr>parsedCrl := records\<rparr>, []))
   \<and> (crlFile p \<noteq> [] \<and> tls_lib B \<noteq> OpenSSL \<longrightarrow>
        loadCrlFile B R p = (p\<lparr>parsedCrl := []\<rparr>, []))"
  by (simp add: loadCrlFile_def read_crls_all read_crls_until_failure)

theorem loadCrlFile_by_build_witness:
  "loadCrlFile sample_build sample_runtime (PeerOptions_default\<lparr>parsedCrl := [X509_CRL 9]\<rparr>)
     = (PeerOptions_default, [])
   \<and> loadCrlFile sample_build sample_runtime
       (PeerOptions_default\<lparr>crlFile := ''/missing.pem'', parsedCrl := [X509_CRL 9]\<rparr>)
     = (PeerOptions_default\<lparr>crlFile := ''/missing.pem''\<rparr>,
        [''WARNING: Failed to open CRL file /missing.pem''])
   \<and> loadCrlFile sample_build sample_runtime
       (PeerOptions_default\<lparr>crlFile := ''/etc/squid/crl.pem'', parsedCrl := [X509_CRL 9]\<rparr>)
     = (PeerOptions_default\<lparr>crlFile := ''/etc/squid/crl.pem'',
                               parsedCrl := [X509_CRL 1, X509_CRL 2, X509_CRL 3]\<rparr>, [])
   \<and> loadCrlFile sample_build (sample_runtime\<lparr>BIO_new_file := (\<lambda>path. Some [])\<rparr>)
       (PeerOptions_default\<lparr>crlFile := ''/etc/squid/crl.pem'', parsedCrl := [X509_CRL 9]\<rparr>)
     = (PeerOptions_default\<lparr>crlFile := ''/etc/squid/crl.pem''\<rparr>, [])
   \<and> loadCrlFile sample_build
       (sample_runtime\<lparr>BIO_new_file :=
          (\<lambda>path. Some [Some (X509_CRL 1), None, Some (X509_CRL 3)])\<rparr>)
       (PeerOptions_default\<lparr>crlFile := ''/etc/squid/crl.pem'', parsedCrl := [X509_CRL 9]\<rparr>)
     = (PeerOptions_default\<lparr>crlFile := ''/etc/squid/crl.pem'', parsedCrl := [X509_CRL 1]\<rparr>, [])
   \<and> loadCrlFile gnutls_build sample_runtime
       (PeerOptions_default\<lparr>crlFile := ''/etc/squid/crl.pem'', parsedCrl := [X509_CRL 9]\<rparr>)
     = (PeerOptions_default\<lparr>crlFile := ''/etc/squid/crl.pem''\<rparr>, [])"
proof -
  let ?p = "PeerOptions_default\<lparr>crlFile := ''/etc/squid/crl.pem'', parsedCrl := [X509_CRL 9]\<rparr>"
  note no_path = loadCrlFile_by_build
    [where p = "PeerOptions_default\<lparr>parsedCrl := [X509_CRL 9]\<rparr>"
       and B = sample_build and R = sample_runtime and records = "[]" and later = "[]"]
  note missing = loadCrlFile_by_build
    [where p = "PeerOptions_default\<lparr>crlFile := ''/missing.pem'', parsedCrl := [X509_CRL 9]\<rparr>"
       and B = sample_build and R = sample_runtime and records = "[]" and later = "[]"]
  note three = loadCrlFile_by_build
    [where p = ?p and B = sample_build and R = sample_runtime
       and records = "[X509_CRL 1, X509_CRL 2, X509_CRL 3]" and later = "[]"]
  note none = loadCrlFile_by_build
    [where p = ?p and B = sample_build
       and R = "sample_runtime\<lparr>BIO_new_file := (\<lambda>path. Some [])\<rparr>"
       and records = "[]" and later = "[]"]
  note broken = loadCrlFile_by_build
    [where p = ?p and B = sample_build
       and R = "sample_runtime\<lparr>BIO_new_file :=
                  (\<lambda>path. Some [Some (X509_CRL 1), None, Some (X509_CRL 3)])\<rparr>"
       and records = "[X509_CRL 1]" and later = "[Some (X509_CRL 3)]"]
  note other_library = loadCrlFile_by_build
    [where p = ?p and B = gnutls_build and R = sample_runtime
       and records = "[]" and later = "[]"]
  from no_path missing three none broken other_library show ?thesis
    by (simp add: PeerOptions_default_def sample_build_def gnutls_build_def sample_runtime_def)
qed

text \<open>
  C9, without OpenSSL and without a path. In the build with GnuTLS the file of three
  records gives no entry. With an empty \<open>crlFile\<close>, which names no file that opens,
  nothing is logged.
\<close>

theorem loadCrlFile_reads_nothing_without_OpenSSL:
  "BIO_new_file sample_runtime ''/etc/squid/crl.pem''
     = Some [Some (X509_CRL 1), Some (X509_CRL 2), Some (X509_CRL 3)]
   \<and> loadCrlFile gnutls_build sample_runtime (PeerOptions_default\<lparr>crlFile := ''/etc/squid/crl.pem''\<rparr>)
     = (PeerOptions_default\<lparr>crlFile := ''/etc/squid/crl.pem''\<rparr>, [])
   \<and> BIO_new_file sample_runtime [] = None
   \<and> loadCrlFile sample_build sample_runtime PeerOptions_default = (PeerOptions_default, [])"
  by code_simp

end
